theory Spec2Isabelle
  imports Main "HOL-Library.Sublist" "HOL-Library.Multiset" "HOL-Library.Word" "HOL-Library.AList"
begin

section \<open>The bluetooth integration: data model\<close>

text \<open>
  The model follows \<^verbatim>\<open>homeassistant/components/bluetooth/__init__.py\<close>.
  A Python \<^verbatim>\<open>str\<close> is a \<^typ>\<open>string\<close>, a \<^verbatim>\<open>bytes\<close> value a list of
  8-bit words, a \<^verbatim>\<open>dict\<close> an association list in insertion order (keys distinct),
  \<^verbatim>\<open>None\<close> is \<^term>\<open>None\<close>.
\<close>

type_synonym bytes = "8 word list"

text \<open>\<^verbatim>\<open>bleak.backends.device.BLEDevice\<close>: the fields the integration reads.\<close>

record BLEDevice =
  address :: string
  name :: "string option"
  rssi :: int

text \<open>\<^verbatim>\<open>bleak.backends.scanner.AdvertisementData\<close>.\<close>

record AdvertisementData =
  local_name :: "string option"
  manufacturer_data :: "(int \<times> bytes) list"
  service_data :: "(string \<times> bytes) list"
  service_uuids :: "string list"

text \<open>
  \<^verbatim>\<open>BluetoothServiceInfoBleak\<close>: the dataclass handed to callbacks and discovery flows.
\<close>

record BluetoothServiceInfoBleak =
  si_name :: string
  si_address :: string
  si_rssi :: int
  si_manufacturer_data :: "(int \<times> bytes) list"
  si_service_data :: "(string \<times> bytes) list"
  si_service_uuids :: "string list"
  si_source :: string
  si_device :: BLEDevice
  si_advertisement :: AdvertisementData

text \<open>
  Python's \<^verbatim>\<open>x or y\<close> on an optional string: \<^verbatim>\<open>x\<close> when it is truthy (neither
  \<^verbatim>\<open>None\<close> nor the empty string), else \<^verbatim>\<open>y\<close>.
\<close>

fun or_else :: "string option \<Rightarrow> string \<Rightarrow> string" where
  "or_else None y = y"
| "or_else (Some x) y = (if x = [] then y else x)"

definition SOURCE_LOCAL :: string where
  "SOURCE_LOCAL = ''local''"

definition from_advertisement ::
  "BLEDevice \<Rightarrow> AdvertisementData \<Rightarrow> string \<Rightarrow> BluetoothServiceInfoBleak" where
  "from_advertisement device advertisement_data source =
     \<lparr> si_name = or_else (local_name advertisement_data) (or_else (name device) (address device)),
       si_address = address device,
       si_rssi = rssi device,
       si_manufacturer_data = manufacturer_data advertisement_data,
       si_service_data = service_data advertisement_data,
       si_service_uuids = service_uuids advertisement_data,
       si_source = source,
       si_device = device,
       si_advertisement = advertisement_data \<rparr>"

text \<open>
  The matcher dictionaries (\<^verbatim>\<open>BluetoothCallbackMatcher\<close>, \<^verbatim>\<open>BluetoothMatcher\<close>):
  every key is optional and \<^verbatim>\<open>matcher.get(KEY)\<close> is \<^verbatim>\<open>None\<close> for a key that is not
  set. \<^verbatim>\<open>manufacturer_data_start\<close> is a list of byte values, so
  \<^verbatim>\<open>bytearray(...)\<close> of it is the same list. An integration matcher also carries the
  \<^verbatim>\<open>domain\<close> that owns it.
\<close>

record matcher =
  matcher_address :: "string option"
  matcher_local_name :: "string option"
  matcher_service_uuid :: "string option"
  matcher_manufacturer_id :: "int option"
  matcher_manufacturer_data_start :: "bytes option"

record integration_matcher = matcher +
  domain :: string

section \<open>\<^verbatim>\<open>fnmatch.fnmatch\<close>\<close>

text \<open>
  The standard library's shell-style matcher, as \<^verbatim>\<open>fnmatch.translate\<close> reads a
  pattern: \<^verbatim>\<open>*\<close> matches any run of characters, \<^verbatim>\<open>?\<close> one character,
  \<^verbatim>\<open>[seq]\<close> one character of \<^verbatim>\<open>seq\<close> and \<^verbatim>\<open>[!seq]\<close> one character not in it;
  a \<^verbatim>\<open>]\<close> right after the opening bracket (or after the \<^verbatim>\<open>!\<close>) belongs to the set,
  \<^verbatim>\<open>a-z\<close> inside a set is a range (empty when its bounds are reversed), and a
  \<^verbatim>\<open>[\<close> that is never closed stands for itself. The whole name must match.
  \<^verbatim>\<open>os.path.normcase\<close> is the identity (POSIX).
\<close>

datatype class_item = Single char | Range char char

datatype glob_token = STAR | ANY | LIT char | CLASS bool "class_item list"

fun class_items :: "string \<Rightarrow> class_item list" where
  "class_items (lo # m # hi # cs) =
     (if m = CHR ''-'' then Range lo hi # class_items cs
      else Single lo # class_items (m # hi # cs))"
| "class_items (c # cs) = Single c # class_items cs"
| "class_items [] = []"

fun class_item_matches :: "char \<Rightarrow> class_item \<Rightarrow> bool" where
  "class_item_matches c (Single x) = (c = x)"
| "class_item_matches c (Range lo hi) =
     ((of_char lo :: nat) \<le> of_char c \<and> (of_char c :: nat) \<le> of_char hi)"

text \<open>The text up to the first \<^verbatim>\<open>]\<close>, and what follows that bracket.\<close>

fun find_close :: "string \<Rightarrow> (string \<times> string) option" where
  "find_close [] = None"
| "find_close (c # cs) =
     (if c = CHR '']'' then Some ([], cs)
      else (case find_close cs of
              None \<Rightarrow> None
            | Some (body, rest) \<Rightarrow> Some (c # body, rest)))"

text \<open>
  After an opening bracket: skip a leading \<^verbatim>\<open>!\<close>, then a leading \<^verbatim>\<open>]\<close>, then scan
  to the closing bracket. The result is the set's text and the rest of the pattern.
\<close>

definition bracket :: "string \<Rightarrow> (string \<times> string) option" where
  "bracket s =
     (let (neg, s1) = (case s of c # r \<Rightarrow> if c = CHR ''!'' then ([c], r) else ([], s)
                                | [] \<Rightarrow> ([], s));
          (lead, s2) = (case s1 of c # r \<Rightarrow> if c = CHR '']'' then ([c], r) else ([], s1)
                                 | [] \<Rightarrow> ([], s1))
      in (case find_close s2 of
            None \<Rightarrow> None
          | Some (body, rest) \<Rightarrow> Some (neg @ lead @ body, rest)))"

definition char_class :: "string \<Rightarrow> glob_token" where
  "char_class stuff =
     (case stuff of
        c # r \<Rightarrow> if c = CHR ''!'' then CLASS True (class_items r)
                 else CLASS False (class_items stuff)
      | [] \<Rightarrow> CLASS False [])"

lemma find_close_shorter: "find_close s = Some (body, rest) \<Longrightarrow> length rest < length s"
  by (induction s arbitrary: body rest) (auto split: if_splits option.splits)

lemma bracket_shorter: "bracket s = Some (stuff, rest) \<Longrightarrow> length rest \<le> length s"
  by (auto simp: bracket_def Let_def split: list.splits if_splits option.splits
           dest: find_close_shorter)

function translate :: "string \<Rightarrow> glob_token list" where
  "translate [] = []"
| "translate (c # cs) =
     (if c = CHR ''*'' then STAR # translate cs
      else if c = CHR ''?'' then ANY # translate cs
      else if c = CHR ''['' then
        (case bracket cs of
           None \<Rightarrow> LIT c # translate cs
         | Some (stuff, rest) \<Rightarrow> char_class stuff # translate rest)
      else LIT c # translate cs)"
  by pat_completeness auto
termination
  by (relation "measure length") (auto dest: bracket_shorter)

fun glob_match :: "glob_token list \<Rightarrow> string \<Rightarrow> bool" where
  "glob_match [] s = (s = [])"
| "glob_match (STAR # ps) [] = glob_match ps []"
| "glob_match (STAR # ps) (c # cs) = (glob_match ps (c # cs) \<or> glob_match (STAR # ps) cs)"
| "glob_match (ANY # ps) [] = False"
| "glob_match (ANY # ps) (c # cs) = glob_match ps cs"
| "glob_match (LIT x # ps) [] = False"
| "glob_match (LIT x # ps) (c # cs) = (c = x \<and> glob_match ps cs)"
| "glob_match (CLASS neg items # ps) [] = False"
| "glob_match (CLASS neg items # ps) (c # cs) =
     ((list_ex (class_item_matches c) items \<noteq> neg) \<and> glob_match ps cs)"

definition fnmatch :: "string \<Rightarrow> string \<Rightarrow> bool" where
  "fnmatch nm pat = glob_match (translate pat) nm"

section \<open>The match predicate\<close>

text \<open>\<^verbatim>\<open>_ble_device_matches\<close>: every field the matcher sets must hold.\<close>

definition ble_device_matches ::
  "'a matcher_scheme \<Rightarrow> BLEDevice \<Rightarrow> AdvertisementData \<Rightarrow> bool" where
  "ble_device_matches mt device advertisement_data =
     (if (case matcher_address mt of
            None \<Rightarrow> False
          | Some matcher_addr \<Rightarrow> address device \<noteq> matcher_addr) then False
      else if (case matcher_local_name mt of
            None \<Rightarrow> False
          | Some matcher_name \<Rightarrow>
              \<not> fnmatch (or_else (local_name advertisement_data)
                           (or_else (name device) (address device))) matcher_name) then False
      else if (case matcher_service_uuid mt of
            None \<Rightarrow> False
          | Some uuid \<Rightarrow> uuid \<notin> set (service_uuids advertisement_data)) then False
      else if (case matcher_manufacturer_id mt of
            None \<Rightarrow> False
          | Some mfr_id \<Rightarrow> mfr_id \<notin> set (map fst (manufacturer_data advertisement_data)))
        then False
      else (case matcher_manufacturer_data_start mt of
            None \<Rightarrow> True
          | Some start \<Rightarrow>
              list_ex (prefix start) (map snd (manufacturer_data advertisement_data))))"

section \<open>The match cache\<close>

text \<open>
  \<^verbatim>\<open>lru.LRU\<close>: a dictionary of bounded size that keeps its keys in order of use,
  most recent first. A membership test does not touch the order; storing a key moves it
  to the front, and storing a new key into a full cache drops the key at the back.
\<close>

record ('k, 'v) LRU =
  lru_size :: nat
  lru_items :: "('k \<times> 'v) list"

definition LRU_new :: "nat \<Rightarrow> ('k, 'v) LRU" where
  "LRU_new n = \<lparr> lru_size = n, lru_items = [] \<rparr>"

definition lru_contains :: "'k \<Rightarrow> ('k, 'v) LRU \<Rightarrow> bool" where
  "lru_contains k c = (k \<in> set (map fst (lru_items c)))"

definition lru_setitem :: "'k \<Rightarrow> 'v \<Rightarrow> ('k, 'v) LRU \<Rightarrow> ('k, 'v) LRU" where
  "lru_setitem k v c =
     (if lru_contains k c
      then c\<lparr> lru_items := (k, v) # filter (\<lambda>p. fst p \<noteq> k) (lru_items c) \<rparr>
      else (let items = (k, v) # lru_items c
            in c\<lparr> lru_items := (if lru_size c < length items then butlast items else items) \<rparr>))"

definition MAX_REMEMBER_ADDRESSES :: nat where
  "MAX_REMEMBER_ADDRESSES = 2048"


section \<open>The manager\<close>

text \<open>
  A callback is an opaque callable; the model keeps its identity (two registrations are
  equal when they name the same callable with equal matchers, as Python's tuple equality
  has it). What a callback does when it is invoked is a parameter of the model, the
  \<open>world\<close>: whether the call raises (\<open>callback_raises\<close>), and which unregister
  handles of the manager it calls while it runs (\<open>callback_unregisters\<close>), in the
  order it calls them. The model records each invocation as an event. An exception here
  is one derived from \<^verbatim>\<open>Exception\<close>, the class the handlers name. Registering from
  within a callback is not modelled.
  Python gives no order to the elements of a \<^verbatim>\<open>set\<close>; \<open>set_order\<close> is the order
  in which a set, given by a duplicate-free list of its elements, is iterated.
\<close>

type_synonym callback = nat
type_synonym unavailable_callback = nat

text \<open>
  A call of an unregister handle from within a callback: the handle of a subscription
  (\<^verbatim>\<open>async_register_callback\<close>) or of an unavailability callback
  (\<^verbatim>\<open>async_track_unavailable\<close>), named by what the handle was returned for.
\<close>

datatype reentrant_call =
    Call_remove_callback callback "matcher option"
  | Call_remove_unavailable unavailable_callback string

record world =
  callback_raises :: "callback \<Rightarrow> BluetoothServiceInfoBleak \<Rightarrow> bool"
  callback_unregisters :: "callback \<Rightarrow> BluetoothServiceInfoBleak \<Rightarrow> reentrant_call list"
  unavailable_callback_raises :: "unavailable_callback \<Rightarrow> string \<Rightarrow> bool"
  unavailable_callback_unregisters :: "unavailable_callback \<Rightarrow> string \<Rightarrow> reentrant_call list"
  set_order :: "string list \<Rightarrow> string list"

definition iteration_order :: "world \<Rightarrow> bool" where
  "iteration_order w = (\<forall>xs. mset (set_order w xs) = mset xs)"

datatype BluetoothChange = ADVERTISEMENT

datatype event =
    Debug_device_detected BLEDevice AdvertisementData "string set option"
  | Callback_invoked callback BluetoothServiceInfoBleak BluetoothChange
  | Unavailable_invoked unavailable_callback string
  | Exception_logged string
  | Flow_created string string BluetoothServiceInfoBleak

datatype python_exception = FileNotFoundError | BleakError | Other_exception

datatype error =
    RuntimeError python_exception
  | ConfigEntryNotReady python_exception
  | Propagated python_exception
  | AssertionError
  | KeyError
  | ValueError

datatype BluetoothScanningMode = PASSIVE | ACTIVE

fun SCANNING_MODE_TO_BLEAK :: "BluetoothScanningMode \<Rightarrow> string" where
  "SCANNING_MODE_TO_BLEAK ACTIVE = ''active''"
| "SCANNING_MODE_TO_BLEAK PASSIVE = ''passive''"

definition SOURCE_BLUETOOTH :: string where
  "SOURCE_BLUETOOTH = ''bluetooth''"

text \<open>The sinks registered with the scanner; the manager registers its own intake.\<close>

datatype detection_sink = Device_detected_sink | Other_sink nat

text \<open>
  Modelled from the spec: \<^verbatim>\<open>HaBleakScanner\<close> (\<^verbatim>\<open>models.py\<close>) is the transport driver.
  It holds the \<open>history\<close> mapping from an address to the last (device, advertisement)
  seen, the live list of \<open>discovered_devices\<close>, and the advertisement sinks registered
  with it; \<^verbatim>\<open>async_register_callback\<close> registers a sink and returns the handle that
  removes that registration.
\<close>

record HaBleakScanner =
  history :: "(string \<times> (BLEDevice \<times> AdvertisementData)) list"
  discovered_devices :: "BLEDevice list"
  scanner_callbacks :: "detection_sink list"
  scanning_mode :: "string option"
  detection_callback_registered :: bool
  started :: bool

definition scanner_register_callback :: "detection_sink \<Rightarrow> HaBleakScanner \<Rightarrow> HaBleakScanner" where
  "scanner_register_callback sink sc = sc\<lparr> scanner_callbacks := scanner_callbacks sc @ [sink] \<rparr>"

definition scanner_remove_callback :: "detection_sink \<Rightarrow> HaBleakScanner \<Rightarrow> HaBleakScanner" where
  "scanner_remove_callback sink sc = sc\<lparr> scanner_callbacks := remove1 sink (scanner_callbacks sc) \<rparr>"

record BluetoothManager =
  integration_matchers :: "integration_matcher list"
  scanner :: "HaBleakScanner option"
  cancel_device_detected :: "detection_sink option"
  cancel_unavailable_tracking :: bool
  unavailable_callbacks :: "(string \<times> unavailable_callback list) list"
  callbacks :: "(callback \<times> matcher option) list"
  matched :: "(string \<times> bool, bool) LRU"
  multiple_bleak_catcher :: bool
  stop_listener :: bool

text \<open>\<^verbatim>\<open>BluetoothManager.__init__\<close>.\<close>

definition init_manager :: "integration_matcher list \<Rightarrow> BluetoothManager" where
  "init_manager ims =
     \<lparr> integration_matchers = ims,
       scanner = None,
       cancel_device_detected = None,
       cancel_unavailable_tracking = False,
       unavailable_callbacks = [],
       callbacks = [],
       matched = LRU_new MAX_REMEMBER_ADDRESSES,
       multiple_bleak_catcher = False,
       stop_listener = False \<rparr>"

text \<open>\<^verbatim>\<open>BluetoothManager.async_setup\<close>: a fresh scanner.\<close>

definition async_setup :: "BluetoothManager \<Rightarrow> BluetoothManager" where
  "async_setup mgr =
     mgr\<lparr> scanner := Some \<lparr> history = [], discovered_devices = [], scanner_callbacks = [],
                              scanning_mode = None, detection_callback_registered = False,
                              started = False \<rparr> \<rparr>"

subsection \<open>\<^verbatim>\<open>async_start\<close>\<close>

text \<open>
  What the driver does in \<^verbatim>\<open>scanner.async_setup\<close> and in \<^verbatim>\<open>scanner.start\<close> is
  an input: \<^term>\<open>None\<close> when the call returns, the exception when it raises. The
  result is the error that leaves \<^verbatim>\<open>async_start\<close>, if any, and the manager as the
  call leaves it.
\<close>

definition async_start ::
  "python_exception option \<Rightarrow> python_exception option \<Rightarrow> BluetoothScanningMode \<Rightarrow>
   BluetoothManager \<Rightarrow> error option \<times> BluetoothManager" where
  "async_start setup_raises start_raises mode mgr =
     (case scanner mgr of
        None \<Rightarrow> (Some AssertionError, mgr)
      | Some sc \<Rightarrow>
          (case setup_raises of
             Some ex \<Rightarrow>
               (if ex = FileNotFoundError \<or> ex = BleakError then (Some (RuntimeError ex), mgr)
                else (Some (Propagated ex), mgr))
           | None \<Rightarrow>
               (let sc1 = sc\<lparr> scanning_mode := Some (SCANNING_MODE_TO_BLEAK mode) \<rparr>;
                    sc2 = sc1\<lparr> detection_callback_registered := True \<rparr>;
                    sc3 = scanner_register_callback Device_detected_sink sc2;
                    mgr1 = mgr\<lparr> multiple_bleak_catcher := True, scanner := Some sc3,
                                cancel_device_detected := Some Device_detected_sink \<rparr>
                in (case start_raises of
                      Some ex \<Rightarrow>
                        (if ex = FileNotFoundError \<or> ex = BleakError
                         then (Some (ConfigEntryNotReady ex),
                               mgr1\<lparr> scanner :=
                                       Some (scanner_remove_callback Device_detected_sink sc3) \<rparr>)
                         else (Some (Propagated ex), mgr1))
                    | None \<Rightarrow>
                        (None, mgr1\<lparr> scanner := Some (sc3\<lparr> started := True \<rparr>),
                                     cancel_unavailable_tracking := True,
                                     stop_listener := True \<rparr>)))))"

subsection \<open>The unregister handles and \<^verbatim>\<open>async_track_unavailable\<close>\<close>

text \<open>
  The handle \<^verbatim>\<open>async_register_callback\<close> returns, for the entry it appended:
  \<^verbatim>\<open>self._callbacks.remove(callback_entry)\<close> removes the first equal entry and raises
  \<^verbatim>\<open>ValueError\<close> when there is none.
\<close>

definition async_remove_callback ::
  "callback \<times> matcher option \<Rightarrow> BluetoothManager \<Rightarrow> error + BluetoothManager" where
  "async_remove_callback callback_entry mgr =
     (if callback_entry \<in> set (callbacks mgr)
      then Inr (mgr\<lparr> callbacks := remove1 callback_entry (callbacks mgr) \<rparr>)
      else Inl ValueError)"

definition async_track_unavailable ::
  "BluetoothManager \<Rightarrow> unavailable_callback \<Rightarrow> string \<Rightarrow> BluetoothManager" where
  "async_track_unavailable mgr cb addr =
     (let cbs = (case map_of (unavailable_callbacks mgr) addr of None \<Rightarrow> [] | Some l \<Rightarrow> l)
      in mgr\<lparr> unavailable_callbacks :=
                AList.update addr (cbs @ [cb]) (unavailable_callbacks mgr) \<rparr>)"

text \<open>The handle it returns, for the callback and the address it was given.\<close>

definition async_remove_unavailable_callback ::
  "unavailable_callback \<Rightarrow> string \<Rightarrow> BluetoothManager \<Rightarrow> error + BluetoothManager" where
  "async_remove_unavailable_callback cb addr mgr =
     (case map_of (unavailable_callbacks mgr) addr of
        None \<Rightarrow> Inl KeyError
      | Some cbs \<Rightarrow>
          (if cb \<notin> set cbs then Inl ValueError
           else (let cbs' = remove1 cb cbs;
                     ucs = AList.update addr cbs' (unavailable_callbacks mgr)
                 in if cbs' = []
                    then Inr (mgr\<lparr> unavailable_callbacks := AList.delete addr ucs \<rparr>)
                    else Inr (mgr\<lparr> unavailable_callbacks := ucs \<rparr>))))"

text \<open>
  A sequence of registrations and of calls of their handles. A handle that raises
  leaves the manager as it was.
\<close>

datatype unavailable_op =
    Track unavailable_callback string
  | Remove unavailable_callback string

fun unavailable_step :: "BluetoothManager \<Rightarrow> unavailable_op \<Rightarrow> BluetoothManager" where
  "unavailable_step mgr (Track cb addr) = async_track_unavailable mgr cb addr"
| "unavailable_step mgr (Remove cb addr) =
     (case async_remove_unavailable_callback cb addr mgr of
        Inl e \<Rightarrow> mgr
      | Inr mgr' \<Rightarrow> mgr')"

subsection \<open>Handles called from within a callback\<close>

text \<open>
  A handle that raises (the entry is gone already) leaves the manager as it was; whether
  the callback then raises as well is the world's \<open>callback_raises\<close>.
\<close>

fun apply_call :: "BluetoothManager \<Rightarrow> reentrant_call \<Rightarrow> BluetoothManager" where
  "apply_call mgr (Call_remove_callback cb mt) =
     (case async_remove_callback (cb, mt) mgr of
        Inl e \<Rightarrow> mgr
      | Inr mgr' \<Rightarrow> mgr')"
| "apply_call mgr (Call_remove_unavailable cb addr) =
     (case async_remove_unavailable_callback cb addr mgr of
        Inl e \<Rightarrow> mgr
      | Inr mgr' \<Rightarrow> mgr')"

definition apply_calls :: "BluetoothManager \<Rightarrow> reentrant_call list \<Rightarrow> BluetoothManager" where
  "apply_calls mgr cs = foldl apply_call mgr cs"

text \<open>The callbacks registered for an address: \<^verbatim>\<open>self._unavailable_callbacks.get(address)\<close>,
  with the empty list for \<^verbatim>\<open>None\<close>.\<close>

definition callbacks_of :: "BluetoothManager \<Rightarrow> string \<Rightarrow> unavailable_callback list" where
  "callbacks_of mgr addr =
     (case map_of (unavailable_callbacks mgr) addr of None \<Rightarrow> [] | Some l \<Rightarrow> l)"

lemma apply_call_callbacks_length:
  "length (callbacks (apply_call mgr c)) \<le> length (callbacks mgr)"
  by (cases c) (auto simp: async_remove_callback_def async_remove_unavailable_callback_def
        Let_def length_remove1 split: option.splits)

lemma apply_calls_callbacks_length:
  "length (callbacks (apply_calls mgr cs)) \<le> length (callbacks mgr)"
  unfolding apply_calls_def
proof (induction cs arbitrary: mgr)
  case Nil
  then show ?case by simp
next
  case (Cons c cs)
  have "length (callbacks (foldl apply_call (apply_call mgr c) cs))
          \<le> length (callbacks (apply_call mgr c))"
    by (rule Cons.IH)
  also have "\<dots> \<le> length (callbacks mgr)"
    by (rule apply_call_callbacks_length)
  finally show ?case by simp
qed



subsection \<open>\<^verbatim>\<open>_device_detected\<close>\<close>

text \<open>
  The events of one guarded call of a subscriber:
  \<^verbatim>\<open>try: callback(service_info, BluetoothChange.ADVERTISEMENT)\<close>,
  \<^verbatim>\<open>except Exception: _LOGGER.exception(...)\<close>.
\<close>

definition callback_events :: "world \<Rightarrow> callback \<Rightarrow> BluetoothServiceInfoBleak \<Rightarrow> event list" where
  "callback_events w cb service_info =
     Callback_invoked cb service_info ADVERTISEMENT #
     (if callback_raises w cb service_info then [Exception_logged ''Error in bluetooth callback'']
      else [])"

text \<open>
  The first part of \<^verbatim>\<open>_device_detected\<close>: the cache check and the evaluation of the
  integration matchers. \<open>matched_domains\<close> stays \<^term>\<open>None\<close> when the evaluation is
  skipped; otherwise it is the set of the matching domains, as a duplicate-free list.
\<close>

definition device_detected_matched_domains ::
  "BluetoothManager \<Rightarrow> BLEDevice \<Rightarrow> AdvertisementData \<Rightarrow> string list option \<times> BluetoothManager" where
  "device_detected_matched_domains mgr device advertisement_data =
     (let match_key = (address device, manufacturer_data advertisement_data \<noteq> []);
          match_key_has_mfr_data = (address device, True)
      in if \<not> lru_contains match_key_has_mfr_data (matched mgr)
            \<and> \<not> lru_contains match_key (matched mgr)
         then (let matched_domains =
                     remdups (map domain
                       (filter (\<lambda>mt. ble_device_matches mt device advertisement_data)
                          (integration_matchers mgr)))
               in if matched_domains \<noteq> []
                  then (Some matched_domains,
                        mgr\<lparr> matched := lru_setitem match_key True (matched mgr) \<rparr>)
                  else (Some matched_domains, mgr))
         else (None, mgr))"

text \<open>
  The loop over the subscriptions, \<^verbatim>\<open>for callback, matcher in self._callbacks\<close>.
  Python iterates the list itself, by position: each round reads the entry at the next
  position of the list as it is then, and the loop ends when the position is past the
  end. A callback that calls an unregister handle changes the list under the loop.
  \<open>service_info\<close> is built when the first subscriber needs it and reused afterwards.
\<close>

function dispatch_callbacks ::
  "world \<Rightarrow> BLEDevice \<Rightarrow> AdvertisementData \<Rightarrow> nat \<Rightarrow> BluetoothManager \<Rightarrow>
   BluetoothServiceInfoBleak option \<Rightarrow>
   BluetoothManager \<times> BluetoothServiceInfoBleak option \<times> event list" where
  "dispatch_callbacks w device advertisement_data i mgr service_info =
     (if i < length (callbacks mgr)
      then (if (case snd (callbacks mgr ! i) of
                  None \<Rightarrow> True
                | Some m \<Rightarrow> ble_device_matches m device advertisement_data)
            then (let cb = fst (callbacks mgr ! i);
                      si = (case service_info of
                              None \<Rightarrow> from_advertisement device advertisement_data SOURCE_LOCAL
                            | Some s \<Rightarrow> s);
                      (mgr', service_info', evs) =
                        dispatch_callbacks w device advertisement_data (Suc i)
                          (apply_calls mgr (callback_unregisters w cb si)) (Some si)
                  in (mgr', service_info', callback_events w cb si @ evs))
            else dispatch_callbacks w device advertisement_data (Suc i) mgr service_info)
      else (mgr, service_info, []))"
  by pat_completeness auto
termination
proof (relation "measure (\<lambda>(w, d, a, i, mgr, si). length (callbacks mgr) - i)", goal_cases)
  case 1
  then show ?case by simp
next
  case (2 w device advertisement_data i mgr service_info cb si)
  have "length (callbacks (apply_calls mgr (callback_unregisters w cb si)))
          \<le> length (callbacks mgr)"
    by (rule apply_calls_callbacks_length)
  with 2 show ?case by simp
next
  case 3
  then show ?case by simp
qed

definition device_detected ::
  "world \<Rightarrow> BluetoothManager \<Rightarrow> BLEDevice \<Rightarrow> AdvertisementData \<Rightarrow>
   BluetoothManager \<times> event list" where
  "device_detected w mgr device advertisement_data =
     (let (matched_domains, mgr') =
            device_detected_matched_domains mgr device advertisement_data;
          debug = Debug_device_detected device advertisement_data (map_option set matched_domains);
          domains = (case matched_domains of None \<Rightarrow> [] | Some ds \<Rightarrow> ds)
      in if domains = [] \<and> callbacks mgr' = [] then (mgr', [debug])
         else (let (mgr'', service_info, evs) =
                     dispatch_callbacks w device advertisement_data 0 mgr' None
               in if domains = [] then (mgr'', debug # evs)
                  else (let si = (case service_info of
                                    None \<Rightarrow> from_advertisement device advertisement_data SOURCE_LOCAL
                                  | Some s \<Rightarrow> s)
                        in (mgr'', debug # evs @
                                   map (\<lambda>dmn. Flow_created dmn SOURCE_BLUETOOTH si)
                                     (set_order w domains)))))"


subsection \<open>\<^verbatim>\<open>async_register_callback\<close>\<close>

text \<open>
  The entry is appended; the handle for it is \<open>async_remove_callback\<close> above. The
  replay is one guarded call of the callback, which may call handles as any call may.
\<close>

definition async_register_callback ::
  "world \<Rightarrow> BluetoothManager \<Rightarrow> callback \<Rightarrow> matcher option \<Rightarrow> BluetoothManager \<times> event list" where
  "async_register_callback w mgr cb mt =
     (let mgr' = mgr\<lparr> callbacks := callbacks mgr @ [(cb, mt)] \<rparr>
      in (case mt of
            None \<Rightarrow> (mgr', [])
          | Some m \<Rightarrow>
              (case matcher_address m of
                 None \<Rightarrow> (mgr', [])
               | Some addr \<Rightarrow>
                   (if addr = [] then (mgr', [])
                    else (case scanner mgr' of
                            None \<Rightarrow> (mgr', [])
                          | Some sc \<Rightarrow>
                              (case map_of (history sc) addr of
                                 None \<Rightarrow> (mgr', [])
                               | Some (device, advertisement_data) \<Rightarrow>
                                   (let si = from_advertisement device advertisement_data
                                               SOURCE_LOCAL
                                    in (apply_calls mgr' (callback_unregisters w cb si),
                                        callback_events w cb si))))))))"

subsection \<open>\<^verbatim>\<open>_async_check_unavailable\<close>\<close>

definition unavailable_events :: "world \<Rightarrow> string \<Rightarrow> unavailable_callback \<Rightarrow> event list" where
  "unavailable_events w addr cb =
     Unavailable_invoked cb addr #
     (if unavailable_callback_raises w cb addr then [Exception_logged ''Error in unavailable callback'']
      else [])"


text \<open>\<^verbatim>\<open>del scanner.history[address]\<close>.\<close>

definition delete_history :: "string \<Rightarrow> BluetoothManager \<Rightarrow> BluetoothManager" where
  "delete_history addr mgr =
     mgr\<lparr> scanner := map_option (\<lambda>sc. sc\<lparr> history := AList.delete addr (history sc) \<rparr>)
                         (scanner mgr) \<rparr>"



section \<open>Observations on the events\<close>

text \<open>
  What a run shows to the outside: the subscriber invocations, the discovery-flow
  requests and the exception log, read off the list of events.
\<close>

fun callback_call :: "event \<Rightarrow> (callback \<times> BluetoothServiceInfoBleak) list" where
  "callback_call (Callback_invoked cb si ch) = [(cb, si)]"
| "callback_call e = []"

definition callback_calls :: "event list \<Rightarrow> (callback \<times> BluetoothServiceInfoBleak) list" where
  "callback_calls evs = concat (map callback_call evs)"

fun flow_request :: "event \<Rightarrow> (string \<times> string \<times> BluetoothServiceInfoBleak) list" where
  "flow_request (Flow_created dmn src si) = [(dmn, src, si)]"
| "flow_request e = []"

definition flow_requests :: "event list \<Rightarrow> (string \<times> string \<times> BluetoothServiceInfoBleak) list" where
  "flow_requests evs = concat (map flow_request evs)"

fun is_exception_log :: "event \<Rightarrow> bool" where
  "is_exception_log (Exception_logged msg) = True"
| "is_exception_log e = False"

definition subscription_matches ::
  "BLEDevice \<Rightarrow> AdvertisementData \<Rightarrow> callback \<times> matcher option \<Rightarrow> bool" where
  "subscription_matches device advertisement_data entry =
     (case snd entry of None \<Rightarrow> True | Some m \<Rightarrow> ble_device_matches m device advertisement_data)"

fun unavailable_call :: "string \<Rightarrow> event \<Rightarrow> unavailable_callback list" where
  "unavailable_call addr (Unavailable_invoked cb a) = (if a = addr then [cb] else [])"
| "unavailable_call addr e = []"

definition unavailable_calls :: "string \<Rightarrow> event list \<Rightarrow> unavailable_callback list" where
  "unavailable_calls addr evs = concat (map (unavailable_call addr) evs)"

text \<open>The same world, but no call raises.\<close>

definition never_raises :: "world \<Rightarrow> world" where
  "never_raises w = w\<lparr> callback_raises := \<lambda>cb si. False \<rparr>"

definition never_raises_unavailable :: "world \<Rightarrow> world" where
  "never_raises_unavailable w = w\<lparr> unavailable_callback_raises := \<lambda>cb addr. False \<rparr>"

text \<open>
  Worlds in which the callbacks leave the registrations alone: no subscriber calls a
  handle at all (\<open>quiet\<close>), no subscriber calls the handle of a subscription
  (\<open>registry_kept\<close>), no unavailability callback calls the handle of an
  unavailability callback (\<open>unavailable_kept\<close>).
\<close>

fun removes_subscription :: "reentrant_call \<Rightarrow> bool" where
  "removes_subscription (Call_remove_callback cb mt) = True"
| "removes_subscription (Call_remove_unavailable cb addr) = False"


definition quiet :: "world \<Rightarrow> bool" where
  "quiet w = (\<forall>cb si. callback_unregisters w cb si = [])"

definition registry_kept :: "world \<Rightarrow> bool" where
  "registry_kept w = (\<forall>cb si. \<not> list_ex removes_subscription (callback_unregisters w cb si))"


section \<open>Example inputs\<close>

definition example_device :: BLEDevice where
  "example_device = \<lparr> address = ''AA:BB:CC:DD:EE:FF'', name = Some ''WoHand'', rssi = -60 \<rparr>"

definition example_uuid :: string where
  "example_uuid = ''cba20d00-224d-11e6-9fb8-0002a5d5c51b''"

definition advertisement_with_mfr :: AdvertisementData where
  "advertisement_with_mfr =
     \<lparr> local_name = Some ''SwitchBot'', manufacturer_data = [(89, [0xFD, 0x60])],
       service_data = [], service_uuids = [example_uuid] \<rparr>"

definition advertisement_without_mfr :: AdvertisementData where
  "advertisement_without_mfr =
     \<lparr> local_name = Some ''SwitchBot'', manufacturer_data = [],
       service_data = [], service_uuids = [example_uuid] \<rparr>"

definition switchbot_matcher :: integration_matcher where
  "switchbot_matcher =
     \<lparr> matcher_address = None, matcher_local_name = None,
       matcher_service_uuid = Some example_uuid, matcher_manufacturer_id = None,
       matcher_manufacturer_data_start = None, domain = ''switchbot'' \<rparr>"

text \<open>A world in which callback 1 raises and no callback calls a handle.\<close>

definition example_world :: world where
  "example_world =
     \<lparr> callback_raises = (\<lambda>cb si. cb = 1),
       callback_unregisters = (\<lambda>cb si. []),
       unavailable_callback_raises = (\<lambda>cb addr. cb = 1),
       unavailable_callback_unregisters = (\<lambda>cb addr. []),
       set_order = rev \<rparr>"

text \<open>
  A world in which callback 1 also unregisters itself when it is invoked: as a subscriber
  registered without a matcher, and as an unavailability callback for the address it is
  called with.
\<close>

definition unregistering_world :: world where
  "unregistering_world =
     \<lparr> callback_raises = (\<lambda>cb si. cb = 1),
       callback_unregisters = (\<lambda>cb si. if cb = 1 then [Call_remove_callback 1 None] else []),
       unavailable_callback_raises = (\<lambda>cb addr. cb = 1),
       unavailable_callback_unregisters =
         (\<lambda>cb addr. if cb = 1 then [Call_remove_unavailable 1 addr] else []),
       set_order = rev \<rparr>"

definition address_matcher :: "string \<Rightarrow> matcher" where
  "address_matcher addr =
     \<lparr> matcher_address = Some addr, matcher_local_name = None, matcher_service_uuid = None,
       matcher_manufacturer_id = None, matcher_manufacturer_data_start = None \<rparr>"

definition example_manager :: BluetoothManager where
  "example_manager =
     (async_setup (init_manager [switchbot_matcher]))
       \<lparr> callbacks := [(1, None), (2, Some (address_matcher ''AA:BB:CC:DD:EE:FF''))] \<rparr>"

definition example_history_manager :: BluetoothManager where
  "example_history_manager =
     example_manager
       \<lparr> scanner := Some \<lparr> history = [(''AA:BB:CC:DD:EE:FF'', (example_device, advertisement_with_mfr))],
                            discovered_devices = [], scanner_callbacks = [],
                            scanning_mode = None, detection_callback_registered = False,
                            started = False \<rparr> \<rparr>"

definition two_callbacks_manager :: BluetoothManager where
  "two_callbacks_manager = example_manager\<lparr> callbacks := [(1, None), (2, None)] \<rparr>"


definition tracked_manager :: BluetoothManager where
  "tracked_manager =
     example_manager
       \<lparr> scanner := Some \<lparr> history = [(''AA:BB:CC:DD:EE:FF'', (example_device, advertisement_with_mfr)),
                                       (''11:22:33:44:55:66'',
                                        (\<lparr> address = ''11:22:33:44:55:66'', name = None, rssi = -80 \<rparr>,
                                         advertisement_without_mfr))],
                            discovered_devices =
                              [\<lparr> address = ''11:22:33:44:55:66'', name = None, rssi = -80 \<rparr>],
                            scanner_callbacks = [],
                            scanning_mode = None, detection_callback_registered = False,
                            started = False \<rparr>,
         unavailable_callbacks := [(''AA:BB:CC:DD:EE:FF'', [1, 2]), (''11:22:33:44:55:66'', [3])] \<rparr>"

section \<open>The specification's wording\<close>

text \<open>
  The effective name as the specification words it: the advertisement's local name if
  present, else the device's name if present, else the device's address. It is compared
  below with the name the code computes.
\<close>

definition spec_effective_name :: "BLEDevice \<Rightarrow> AdvertisementData \<Rightarrow> string" where
  "spec_effective_name device advertisement_data =
     (case local_name advertisement_data of
        Some n \<Rightarrow> n
      | None \<Rightarrow> (case name device of Some n \<Rightarrow> n | None \<Rightarrow> address device))"

section \<open>Properties of the match predicate\<close>

lemma fnmatch_examples:
  "fnmatch ''SwitchBot'' ''Switch*''" "\<not> fnmatch ''OtherDevice'' ''Switch*''"
  "fnmatch ''SwitchBot'' ''Sw?tch[A-C]o[!a-s]''" "\<not> fnmatch ''SwitchBot'' ''Switch[!A-C]ot''"
  "fnmatch ''a[b'' ''a[b''" "fnmatch '']'' ''[]]''" "\<not> fnmatch ''SwitchBot'' ''Switch''"
  by (simp_all add: fnmatch_def bracket_def char_class_def)

text \<open>
  Claim C7. A matcher whose only set field is the address matches a device and an
  advertisement exactly when the device's address equals that field, whatever the
  advertisement holds (and whatever else the matcher dictionary carries besides the five
  matching keys, such as a domain).
\<close>

theorem address_only_matcher:
  "ble_device_matches
     \<lparr> matcher_address = Some a, matcher_local_name = None, matcher_service_uuid = None,
       matcher_manufacturer_id = None, matcher_manufacturer_data_start = None, \<dots> = more \<rparr>
     device advertisement_data
   = (address device = a)"
  by (simp add: ble_device_matches_def)

text \<open>
  Claim C8, as the code has it. For a matcher with a local-name pattern, the pattern is
  matched as a glob against the effective name: the advertisement's local name if it is
  present and not empty, else the device's name if it is present and not empty, else the
  device's address. A mismatch makes the predicate false, and when the local name is the
  only field set the predicate is exactly the glob match.
\<close>

theorem local_name_glob:
  assumes "matcher_local_name mt = Some pat"
    and "eff = (if local_name advertisement_data \<noteq> None \<and> local_name advertisement_data \<noteq> Some []
                then the (local_name advertisement_data)
                else if name device \<noteq> None \<and> name device \<noteq> Some []
                then the (name device)
                else address device)"
  shows "(\<not> fnmatch eff pat \<longrightarrow> \<not> ble_device_matches mt device advertisement_data)
       \<and> (matcher_address mt = None \<and> matcher_service_uuid mt = None
            \<and> matcher_manufacturer_id mt = None \<and> matcher_manufacturer_data_start mt = None
           \<longrightarrow> ble_device_matches mt device advertisement_data = fnmatch eff pat)"
proof -
  have eff: "eff = or_else (local_name advertisement_data) (or_else (name device) (address device))"
    using assms(2)
    by (cases "local_name advertisement_data"; cases "name device") auto
  show ?thesis
    using assms(1) by (auto simp: ble_device_matches_def eff split: option.splits)
qed

theorem local_name_glob_witness:
  "\<not> ble_device_matches
       \<lparr> matcher_address = None, matcher_local_name = Some ''Switch*'', matcher_service_uuid = None,
         matcher_manufacturer_id = None, matcher_manufacturer_data_start = None \<rparr>
       \<lparr> address = ''AA:BB:CC:DD:EE:FF'', name = Some ''OtherDevice'', rssi = -60 \<rparr>
       \<lparr> local_name = None, manufacturer_data = [], service_data = [], service_uuids = [] \<rparr>
   \<and> ble_device_matches
       \<lparr> matcher_address = None, matcher_local_name = Some ''Switch*'', matcher_service_uuid = None,
         matcher_manufacturer_id = None, matcher_manufacturer_data_start = None \<rparr>
       \<lparr> address = ''AA:BB:CC:DD:EE:FF'', name = Some ''OtherDevice'', rssi = -60 \<rparr>
       \<lparr> local_name = Some ''SwitchBot'', manufacturer_data = [], service_data = [], service_uuids = [] \<rparr>"
proof -
  let ?m = "\<lparr> matcher_address = None, matcher_local_name = Some ''Switch*'', matcher_service_uuid = None,
         matcher_manufacturer_id = None, matcher_manufacturer_data_start = None \<rparr>"
  let ?d = "\<lparr> address = ''AA:BB:CC:DD:EE:FF'', name = Some ''OtherDevice'', rssi = -60 \<rparr>"
  let ?a1 = "\<lparr> local_name = None, manufacturer_data = [], service_data = [], service_uuids = [] \<rparr>"
  let ?a2 = "\<lparr> local_name = Some ''SwitchBot'', manufacturer_data = [], service_data = [], service_uuids = [] \<rparr>"
  have n1: "\<not> fnmatch ''OtherDevice'' ''Switch*''" by (simp add: fnmatch_def)
  have n2: "fnmatch ''SwitchBot'' ''Switch*''" by (simp add: fnmatch_def)
  from local_name_glob [of ?m "''Switch*''" "''OtherDevice''" ?a1 ?d] n1
  have 1: "\<not> ble_device_matches ?m ?d ?a1" by simp
  from local_name_glob [of ?m "''Switch*''" "''SwitchBot''" ?a2 ?d] n2
  have 2: "ble_device_matches ?m ?d ?a2" by simp
  from 1 2 show ?thesis by blast
qed

text \<open>
  Claim C8 as the specification words it fails: an advertisement whose local name is
  present but empty is matched on the device's name. Here the local name is the empty
  string, which the pattern does not match, and the predicate is true all the same.
\<close>

theorem local_name_present_counterexample:
  "matcher_local_name
       \<lparr> matcher_address = None, matcher_local_name = Some ''Switch*'', matcher_service_uuid = None,
         matcher_manufacturer_id = None, matcher_manufacturer_data_start = None \<rparr> = Some ''Switch*''
   \<and> \<not> fnmatch (spec_effective_name
         \<lparr> address = ''AA:BB:CC:DD:EE:FF'', name = Some ''SwitchBot'', rssi = -60 \<rparr>
         \<lparr> local_name = Some '''', manufacturer_data = [], service_data = [], service_uuids = [] \<rparr>)
       ''Switch*''
   \<and> ble_device_matches
       \<lparr> matcher_address = None, matcher_local_name = Some ''Switch*'', matcher_service_uuid = None,
         matcher_manufacturer_id = None, matcher_manufacturer_data_start = None \<rparr>
       \<lparr> address = ''AA:BB:CC:DD:EE:FF'', name = Some ''SwitchBot'', rssi = -60 \<rparr>
       \<lparr> local_name = Some '''', manufacturer_data = [], service_data = [], service_uuids = [] \<rparr>"
  by (simp add: ble_device_matches_def spec_effective_name_def fnmatch_def)

section \<open>Properties of the advertisement intake\<close>

declare dispatch_callbacks.simps [simp del]

lemma apply_call_frame:
  "matched (apply_call mgr c) = matched mgr"
  "integration_matchers (apply_call mgr c) = integration_matchers mgr"
  "scanner (apply_call mgr c) = scanner mgr"
  by (cases c; auto simp: async_remove_callback_def async_remove_unavailable_callback_def
        Let_def split: option.splits)+

lemma apply_calls_frame:
  "matched (apply_calls mgr cs) = matched mgr"
  "integration_matchers (apply_calls mgr cs) = integration_matchers mgr"
  "scanner (apply_calls mgr cs) = scanner mgr"
  unfolding apply_calls_def by (induction cs arbitrary: mgr; simp add: apply_call_frame)+

lemma apply_calls_Nil [simp]: "apply_calls mgr [] = mgr"
  by (simp add: apply_calls_def)

lemma apply_calls_registry_kept:
  "\<not> list_ex removes_subscription cs \<Longrightarrow> callbacks (apply_calls mgr cs) = callbacks mgr"
  unfolding apply_calls_def
proof (induction cs arbitrary: mgr)
  case Nil
  then show ?case by simp
next
  case (Cons c cs)
  then have "callbacks (apply_call mgr c) = callbacks mgr"
    by (cases c) (auto simp: async_remove_unavailable_callback_def Let_def split: option.splits)
  with Cons show ?case by simp
qed


lemma callback_calls_append [simp]: "callback_calls (xs @ ys) = callback_calls xs @ callback_calls ys"
  by (simp add: callback_calls_def)

lemma flow_requests_append [simp]: "flow_requests (xs @ ys) = flow_requests xs @ flow_requests ys"
  by (simp add: flow_requests_def)

lemma callback_calls_Nil [simp]: "callback_calls [] = []"
  by (simp add: callback_calls_def)

lemma flow_requests_Nil [simp]: "flow_requests [] = []"
  by (simp add: flow_requests_def)

lemma callback_calls_Cons [simp]: "callback_calls (e # evs) = callback_call e @ callback_calls evs"
  by (simp add: callback_calls_def)

lemma flow_requests_Cons [simp]: "flow_requests (e # evs) = flow_request e @ flow_requests evs"
  by (simp add: flow_requests_def)

lemma callback_calls_events [simp]: "callback_calls (callback_events w cb si) = [(cb, si)]"
  by (simp add: callback_events_def)

lemma flow_requests_events [simp]: "flow_requests (callback_events w cb si) = []"
  by (simp add: callback_events_def)

lemma filter_callback_events [simp]:
  "filter (\<lambda>e. \<not> is_exception_log e) (callback_events w cb si) = callback_events (never_raises w) cb si"
  by (simp add: callback_events_def never_raises_def)

lemma never_raises_fields [simp]:
  "set_order (never_raises w) = set_order w"
  "callback_unregisters (never_raises w) = callback_unregisters w"
  by (simp_all add: never_raises_def)

lemma dispatch_end:
  "\<not> i < length (callbacks mgr) \<Longrightarrow> dispatch_callbacks w d a i mgr si = (mgr, si, [])"
  by (subst dispatch_callbacks.simps) simp

lemma dispatch_skip:
  "i < length (callbacks mgr) \<Longrightarrow> \<not> subscription_matches d a (callbacks mgr ! i)
   \<Longrightarrow> dispatch_callbacks w d a i mgr si = dispatch_callbacks w d a (Suc i) mgr si"
  by (subst dispatch_callbacks.simps) (simp add: subscription_matches_def)

lemma dispatch_call:
  "i < length (callbacks mgr) \<Longrightarrow> subscription_matches d a (callbacks mgr ! i)
   \<Longrightarrow> dispatch_callbacks w d a i mgr si =
       (let cb = fst (callbacks mgr ! i);
            si' = (case si of None \<Rightarrow> from_advertisement d a SOURCE_LOCAL | Some s \<Rightarrow> s);
            r = dispatch_callbacks w d a (Suc i) (apply_calls mgr (callback_unregisters w cb si'))
                  (Some si')
        in (fst r, fst (snd r), callback_events w cb si' @ snd (snd r)))"
  by (subst dispatch_callbacks.simps) (simp add: subscription_matches_def Let_def split_beta)




lemma dispatch_frame:
  "matched (fst (dispatch_callbacks w d a i mgr si)) = matched mgr
   \<and> integration_matchers (fst (dispatch_callbacks w d a i mgr si)) = integration_matchers mgr
   \<and> scanner (fst (dispatch_callbacks w d a i mgr si)) = scanner mgr"
proof (induction w d a i mgr si rule: dispatch_callbacks.induct)
  case (1 w d a i mgr si)
  show ?case
  proof (cases "i < length (callbacks mgr)")
    case False
    then show ?thesis by (simp add: dispatch_end)
  next
    case True
    show ?thesis
    proof (cases "subscription_matches d a (callbacks mgr ! i)")
      case False
      with True 1(2) show ?thesis
        by (simp add: dispatch_skip subscription_matches_def)
    next
      case m: True
      with True 1(1) show ?thesis
        by (simp add: dispatch_call subscription_matches_def Let_def apply_calls_frame)
    qed
  qed
qed

lemma dispatch_kept:
  "registry_kept w \<Longrightarrow>
   callbacks (fst (dispatch_callbacks w d a i mgr si)) = callbacks mgr
   \<and> callback_calls (snd (snd (dispatch_callbacks w d a i mgr si)))
       = map (\<lambda>entry. (fst entry, case si of None \<Rightarrow> from_advertisement d a SOURCE_LOCAL
                                        | Some s \<Rightarrow> s))
           (filter (subscription_matches d a) (drop i (callbacks mgr)))"
proof (induction w d a i mgr si rule: dispatch_callbacks.induct)
  case (1 w d a i mgr si)
  show ?case
  proof (cases "i < length (callbacks mgr)")
    case False
    then show ?thesis by (simp add: dispatch_end)
  next
    case True
    then have drop: "drop i (callbacks mgr) = callbacks mgr ! i # drop (Suc i) (callbacks mgr)"
      by (simp add: Cons_nth_drop_Suc)
    show ?thesis
    proof (cases "subscription_matches d a (callbacks mgr ! i)")
      case False
      with True 1(2) 1(3) show ?thesis
        by (simp add: dispatch_skip subscription_matches_def drop)
    next
      case m: True
      let ?si = "case si of None \<Rightarrow> from_advertisement d a SOURCE_LOCAL | Some s \<Rightarrow> s"
      let ?cb = "fst (callbacks mgr ! i)"
      have kept: "callbacks (apply_calls mgr (callback_unregisters w ?cb ?si)) = callbacks mgr"
        using 1(3) by (simp add: registry_kept_def apply_calls_registry_kept)
      from True m 1(1) 1(3) show ?thesis
        by (simp add: dispatch_call subscription_matches_def Let_def kept drop)
    qed
  qed
qed

lemma dispatch_quiet:
  "quiet w \<Longrightarrow> fst (dispatch_callbacks w d a i mgr si) = mgr"
proof (induction w d a i mgr si rule: dispatch_callbacks.induct)
  case (1 w d a i mgr si)
  show ?case
  proof (cases "i < length (callbacks mgr)")
    case False
    then show ?thesis by (simp add: dispatch_end)
  next
    case True
    show ?thesis
    proof (cases "subscription_matches d a (callbacks mgr ! i)")
      case False
      with True 1(2) 1(3) show ?thesis
        by (simp add: dispatch_skip subscription_matches_def)
    next
      case m: True
      with True 1(1) 1(3) show ?thesis
        by (simp add: dispatch_call subscription_matches_def Let_def quiet_def)
    qed
  qed
qed

lemma quiet_registry_kept: "quiet w \<Longrightarrow> registry_kept w"
  by (simp add: quiet_def registry_kept_def)

lemma callback_calls_flows [simp]:
  "callback_calls (map (\<lambda>dmn. Flow_created dmn src si) ds) = []"
  by (induction ds) simp_all

lemma flow_requests_flows [simp]:
  "flow_requests (map (\<lambda>dmn. Flow_created dmn src si) ds) = map (\<lambda>dmn. (dmn, src, si)) ds"
  by (induction ds) simp_all

lemma filter_flows [simp]:
  "filter (\<lambda>e. \<not> is_exception_log e) (map (\<lambda>dmn. Flow_created dmn src si) ds)
     = map (\<lambda>dmn. Flow_created dmn src si) ds"
  by (induction ds) simp_all


lemma matched_domains_callbacks:
  "callbacks (snd (device_detected_matched_domains mgr d a)) = callbacks mgr"
  by (simp add: device_detected_matched_domains_def Let_def)

lemma device_detected_calls:
  "registry_kept w \<Longrightarrow>
   callback_calls (snd (device_detected w mgr d a))
     = map (\<lambda>entry. (fst entry, from_advertisement d a SOURCE_LOCAL))
         (filter (subscription_matches d a) (callbacks mgr))"
  using dispatch_kept [of w d a 0 "snd (device_detected_matched_domains mgr d a)" None]
  by (simp add: device_detected_def matched_domains_callbacks Let_def split_beta)









lemma example_world_quiet: "quiet example_world"
  by (simp add: quiet_def example_world_def)

lemma unregistering_world_order: "iteration_order unregistering_world"
  by (simp add: iteration_order_def unregistering_world_def)

lemmas example_defs = example_device_def example_uuid_def advertisement_with_mfr_def
  advertisement_without_mfr_def switchbot_matcher_def example_manager_def address_matcher_def
  init_manager_def async_setup_def LRU_new_def


lemma lru_contains_setitem:
  "0 < lru_size c \<Longrightarrow> lru_contains k (lru_setitem k v c)"
  by (cases "lru_items c") (auto simp: lru_contains_def lru_setitem_def Let_def)

lemma lru_setitem_keys:
  "set (map fst (lru_items (lru_setitem k v c))) \<subseteq> insert k (set (map fst (lru_items c)))"
  by (auto simp: lru_contains_def lru_setitem_def Let_def dest: in_set_butlastD)

lemma lru_setitem_size [simp]: "lru_size (lru_setitem k v c) = lru_size c"
  by (simp add: lru_setitem_def Let_def)

lemma device_detected_frame:
  "matched (fst (device_detected w mgr d a)) = matched (snd (device_detected_matched_domains mgr d a))
   \<and> integration_matchers (fst (device_detected w mgr d a)) = integration_matchers mgr
   \<and> scanner (fst (device_detected w mgr d a)) = scanner mgr"
  using dispatch_frame [of w d a 0 "snd (device_detected_matched_domains mgr d a)" None]
  by (simp add: device_detected_def Let_def split_beta)
     (simp add: device_detected_matched_domains_def Let_def)

lemma device_detected_quiet:
  "quiet w \<Longrightarrow> fst (device_detected w mgr d a) = snd (device_detected_matched_domains mgr d a)"
  by (simp add: device_detected_def Let_def split_beta dispatch_quiet)

lemma device_detected_cache_size:
  "lru_size (matched (fst (device_detected w mgr d a))) = lru_size (matched mgr)"
  by (simp add: device_detected_frame device_detected_matched_domains_def Let_def)




text \<open>
  Claim C1, as the code has it. The integration matchers are evaluated exactly when the
  cache holds neither the key (address, true) nor the key of this advertisement,
  (address, has-manufacturer-data): for an advertisement without manufacturer data these
  are the two keys of the address, for one with manufacturer data only (address, true)
  is looked up. When the evaluation runs and some matcher matches, the key of this
  advertisement is stored and no other key is added; otherwise the manager is unchanged.
  The cache \<^verbatim>\<open>_device_detected\<close> leaves is the one this step leaves; when no subscriber
  calls a handle during the dispatch, so is the whole manager. The first event logs the
  matched domains (\<^term>\<open>None\<close> when the evaluation was skipped).
\<close>

theorem matcher_evaluation_gate:
  "(fst (device_detected_matched_domains mgr device advertisement_data) \<noteq> None)
     = (\<not> lru_contains (address device, True) (matched mgr)
        \<and> \<not> lru_contains (address device, manufacturer_data advertisement_data \<noteq> []) (matched mgr))
   \<and> snd (device_detected_matched_domains mgr device advertisement_data)
     = (if fst (device_detected_matched_domains mgr device advertisement_data) \<noteq> None
           \<and> list_ex (\<lambda>mt. ble_device_matches mt device advertisement_data) (integration_matchers mgr)
        then mgr\<lparr> matched := lru_setitem
                     (address device, manufacturer_data advertisement_data \<noteq> []) True (matched mgr) \<rparr>
        else mgr)
   \<and> set (map fst (lru_items (matched (snd (device_detected_matched_domains mgr device advertisement_data)))))
       \<subseteq> insert (address device, manufacturer_data advertisement_data \<noteq> [])
            (set (map fst (lru_items (matched mgr))))
   \<and> (0 < lru_size (matched mgr)
        \<and> fst (device_detected_matched_domains mgr device advertisement_data) \<noteq> None
        \<and> list_ex (\<lambda>mt. ble_device_matches mt device advertisement_data) (integration_matchers mgr)
       \<longrightarrow> lru_contains (address device, manufacturer_data advertisement_data \<noteq> [])
             (matched (snd (device_detected_matched_domains mgr device advertisement_data))))
   \<and> matched (fst (device_detected w mgr device advertisement_data))
       = matched (snd (device_detected_matched_domains mgr device advertisement_data))
   \<and> (quiet w \<longrightarrow> fst (device_detected w mgr device advertisement_data)
                     = snd (device_detected_matched_domains mgr device advertisement_data))
   \<and> hd (snd (device_detected w mgr device advertisement_data))
       = Debug_device_detected device advertisement_data
           (map_option set (fst (device_detected_matched_domains mgr device advertisement_data)))"
proof -
  let ?key = "(address device, manufacturer_data advertisement_data \<noteq> [])"
  have ne: "(remdups (map domain (filter (\<lambda>mt. ble_device_matches mt device advertisement_data)
               (integration_matchers mgr))) \<noteq> [])
            = list_ex (\<lambda>mt. ble_device_matches mt device advertisement_data) (integration_matchers mgr)"
    by (auto simp: list_ex_iff filter_empty_conv)
  have 1: "(fst (device_detected_matched_domains mgr device advertisement_data) \<noteq> None)
     = (\<not> lru_contains (address device, True) (matched mgr)
        \<and> \<not> lru_contains ?key (matched mgr))"
    by (simp add: device_detected_matched_domains_def Let_def)
  have 2: "snd (device_detected_matched_domains mgr device advertisement_data)
     = (if fst (device_detected_matched_domains mgr device advertisement_data) \<noteq> None
           \<and> list_ex (\<lambda>mt. ble_device_matches mt device advertisement_data) (integration_matchers mgr)
        then mgr\<lparr> matched := lru_setitem ?key True (matched mgr) \<rparr>
        else mgr)"
    using ne by (simp add: device_detected_matched_domains_def Let_def)
  have 3: "set (map fst (lru_items (matched (snd (device_detected_matched_domains mgr device advertisement_data)))))
       \<subseteq> insert ?key (set (map fst (lru_items (matched mgr))))"
    unfolding 2 using lru_setitem_keys [of ?key True "matched mgr"] by auto
  have 4: "0 < lru_size (matched mgr)
        \<and> fst (device_detected_matched_domains mgr device advertisement_data) \<noteq> None
        \<and> list_ex (\<lambda>mt. ble_device_matches mt device advertisement_data) (integration_matchers mgr)
       \<longrightarrow> lru_contains ?key
             (matched (snd (device_detected_matched_domains mgr device advertisement_data)))"
    unfolding 2 using lru_contains_setitem [of "matched mgr" ?key True] by auto
  have 5: "matched (fst (device_detected w mgr device advertisement_data))
       = matched (snd (device_detected_matched_domains mgr device advertisement_data))"
    by (simp add: device_detected_frame)
  have 6: "quiet w \<longrightarrow> fst (device_detected w mgr device advertisement_data)
                     = snd (device_detected_matched_domains mgr device advertisement_data)"
    by (simp add: device_detected_quiet)
  have 7: "hd (snd (device_detected w mgr device advertisement_data))
       = Debug_device_detected device advertisement_data
           (map_option set (fst (device_detected_matched_domains mgr device advertisement_data)))"
    by (simp add: device_detected_def Let_def split_beta)
  from 1 2 3 4 5 6 7 show ?thesis by blast
qed

theorem matcher_evaluation_gate_witness:
  "0 < lru_size (matched example_manager)
   \<and> fst (device_detected_matched_domains example_manager example_device advertisement_with_mfr) \<noteq> None
   \<and> list_ex (\<lambda>mt. ble_device_matches mt example_device advertisement_with_mfr)
        (integration_matchers example_manager)
   \<and> lru_contains (address example_device, True)
        (matched (snd (device_detected_matched_domains example_manager example_device
                         advertisement_with_mfr)))
   \<and> quiet example_world
   \<and> fst (device_detected example_world example_manager example_device advertisement_with_mfr)
       = snd (device_detected_matched_domains example_manager example_device advertisement_with_mfr)"
proof -
  have 1: "0 < lru_size (matched example_manager)"
    by (simp add: example_defs MAX_REMEMBER_ADDRESSES_def)
  have 2: "fst (device_detected_matched_domains example_manager example_device advertisement_with_mfr) \<noteq> None"
    by (simp add: device_detected_matched_domains_def example_defs lru_contains_def Let_def)
  have 3: "list_ex (\<lambda>mt. ble_device_matches mt example_device advertisement_with_mfr)
        (integration_matchers example_manager)"
    by (simp add: example_defs ble_device_matches_def)
  have 4: "(manufacturer_data advertisement_with_mfr \<noteq> []) = True"
    by (simp add: example_defs)
  note gate = matcher_evaluation_gate [of example_manager example_device advertisement_with_mfr
      example_world]
  from gate 1 2 3
  have "lru_contains (address example_device, manufacturer_data advertisement_with_mfr \<noteq> [])
        (matched (snd (device_detected_matched_domains example_manager example_device
                         advertisement_with_mfr)))"
    by blast
  then have 5: "lru_contains (address example_device, True)
        (matched (snd (device_detected_matched_domains example_manager example_device
                         advertisement_with_mfr)))"
    by (simp only: 4)
  from gate example_world_quiet
  have 6: "fst (device_detected example_world example_manager example_device advertisement_with_mfr)
       = snd (device_detected_matched_domains example_manager example_device advertisement_with_mfr)"
    by blast
  from 1 2 3 5 6 example_world_quiet show ?thesis by blast
qed

text \<open>
  Claim C1 as the specification words it fails: an advertisement that carries
  manufacturer data is evaluated although the key (address, false) is in the cache.
  Here an advertisement without manufacturer data has matched and stored that key, and
  the next advertisement of the same address, with manufacturer data, is evaluated again.
\<close>

theorem cached_no_mfr_key_counterexample:
  "lru_contains (address example_device, False)
     (matched (snd (device_detected_matched_domains example_manager example_device
                      advertisement_without_mfr)))
   \<and> fst (device_detected_matched_domains
            (snd (device_detected_matched_domains example_manager example_device
                    advertisement_without_mfr))
            example_device advertisement_with_mfr) = Some [''switchbot'']"
  by (simp add: device_detected_matched_domains_def example_defs ble_device_matches_def
        lru_contains_def lru_setitem_def MAX_REMEMBER_ADDRESSES_def Let_def)






section \<open>Properties of the callback registry\<close>

lemma remove1_append_new: "x \<notin> set xs \<Longrightarrow> remove1 x (xs @ [x]) = xs"
  by (induction xs) auto

lemma register_appended:
  "quiet w \<or> snd (async_register_callback w mgr cb mt) = [] \<Longrightarrow>
   fst (async_register_callback w mgr cb mt) = mgr\<lparr> callbacks := callbacks mgr @ [(cb, mt)] \<rparr>"
  by (auto simp: async_register_callback_def callback_events_def quiet_def Let_def
           split: option.splits prod.splits)

lemma register_quiet:
  "quiet w \<Longrightarrow>
   fst (async_register_callback w mgr cb mt) = mgr\<lparr> callbacks := callbacks mgr @ [(cb, mt)] \<rparr>"
  by (simp add: register_appended)

text \<open>
  Claim C3. The history holds the addresses the driver has reported, none of them
  empty. A registration whose matcher carries an address for which the history holds a
  last-seen (device, advertisement) invokes the callback exactly once before it returns,
  with the service info built from that entry. Without a matcher, without an address in
  it, or without a history entry for the address (no scanner, or no entry) nothing is
  invoked and nothing is logged; the same holds for the empty address, which the guard
  \<^verbatim>\<open>(address := matcher.get(ADDRESS))\<close> treats as no address. Whatever the callback
  raises, the registration completes, and a raising callback changes nothing but the
  exception log; the entry is appended to the registry, which the registration leaves
  so unless the replayed callback calls a handle.
\<close>

theorem register_replay:
  "(mt = Some m \<and> matcher_address m = Some addr \<and> scanner mgr = Some sc
      \<and> [] \<notin> fst ` set (history sc)
      \<and> map_of (history sc) addr = Some (device, advertisement_data)
     \<longrightarrow> snd (async_register_callback w mgr cb mt)
           = callback_events w cb (from_advertisement device advertisement_data SOURCE_LOCAL)
         \<and> callback_calls (snd (async_register_callback w mgr cb mt))
           = [(cb, from_advertisement device advertisement_data SOURCE_LOCAL)])
   \<and> (mt = None \<longrightarrow> snd (async_register_callback w mgr cb mt) = [])
   \<and> (mt = Some m \<and> matcher_address m = None
        \<longrightarrow> snd (async_register_callback w mgr cb mt) = [])
   \<and> (mt = Some m \<and> matcher_address m = Some addr
        \<and> (scanner mgr = None \<or> (scanner mgr = Some sc \<and> map_of (history sc) addr = None))
        \<longrightarrow> snd (async_register_callback w mgr cb mt) = [])
   \<and> (mt = Some m \<and> matcher_address m = Some []
        \<longrightarrow> snd (async_register_callback w mgr cb mt) = [])
   \<and> (snd (async_register_callback w mgr cb mt) = [] \<or> quiet w
        \<longrightarrow> fst (async_register_callback w mgr cb mt)
              = mgr\<lparr> callbacks := callbacks mgr @ [(cb, mt)] \<rparr>)
   \<and> fst (async_register_callback w mgr cb mt)
       = fst (async_register_callback (never_raises w) mgr cb mt)
   \<and> filter (\<lambda>e. \<not> is_exception_log e) (snd (async_register_callback w mgr cb mt))
       = snd (async_register_callback (never_raises w) mgr cb mt)"
proof -
  have 1: "mt = Some m \<and> matcher_address m = Some addr \<and> scanner mgr = Some sc
      \<and> [] \<notin> fst ` set (history sc)
      \<and> map_of (history sc) addr = Some (device, advertisement_data)
     \<longrightarrow> snd (async_register_callback w mgr cb mt)
           = callback_events w cb (from_advertisement device advertisement_data SOURCE_LOCAL)
         \<and> callback_calls (snd (async_register_callback w mgr cb mt))
           = [(cb, from_advertisement device advertisement_data SOURCE_LOCAL)]"
  proof (intro impI)
    assume h: "mt = Some m \<and> matcher_address m = Some addr \<and> scanner mgr = Some sc
      \<and> [] \<notin> fst ` set (history sc)
      \<and> map_of (history sc) addr = Some (device, advertisement_data)"
    then have "addr \<in> fst ` set (history sc)"
      by (metis map_of_SomeD fst_conv image_eqI)
    with h have "addr \<noteq> []" by (metis)
    with h show "snd (async_register_callback w mgr cb mt)
           = callback_events w cb (from_advertisement device advertisement_data SOURCE_LOCAL)
         \<and> callback_calls (snd (async_register_callback w mgr cb mt))
           = [(cb, from_advertisement device advertisement_data SOURCE_LOCAL)]"
      by (simp add: async_register_callback_def Let_def)
  qed
  have 2: "mt = None \<longrightarrow> snd (async_register_callback w mgr cb mt) = []"
    by (simp add: async_register_callback_def Let_def)
  have 3: "mt = Some m \<and> matcher_address m = None
        \<longrightarrow> snd (async_register_callback w mgr cb mt) = []"
    by (simp add: async_register_callback_def Let_def)
  have 4: "mt = Some m \<and> matcher_address m = Some addr
        \<and> (scanner mgr = None \<or> (scanner mgr = Some sc \<and> map_of (history sc) addr = None))
        \<longrightarrow> snd (async_register_callback w mgr cb mt) = []"
    by (auto simp: async_register_callback_def Let_def)
  have 5: "mt = Some m \<and> matcher_address m = Some []
        \<longrightarrow> snd (async_register_callback w mgr cb mt) = []"
    by (simp add: async_register_callback_def Let_def)
  have 6: "snd (async_register_callback w mgr cb mt) = [] \<or> quiet w
        \<longrightarrow> fst (async_register_callback w mgr cb mt)
              = mgr\<lparr> callbacks := callbacks mgr @ [(cb, mt)] \<rparr>"
    by (auto simp: async_register_callback_def callback_events_def quiet_def Let_def
             split: option.splits prod.splits)
  have 7: "fst (async_register_callback w mgr cb mt)
       = fst (async_register_callback (never_raises w) mgr cb mt)"
    by (simp add: async_register_callback_def Let_def split: option.splits prod.splits)
  have 8: "filter (\<lambda>e. \<not> is_exception_log e) (snd (async_register_callback w mgr cb mt))
       = snd (async_register_callback (never_raises w) mgr cb mt)"
    by (simp add: async_register_callback_def Let_def split: option.splits prod.splits)
  from 1 2 3 4 5 6 7 8 show ?thesis by blast
qed

theorem register_replay_witness:
  "callback_raises example_world 1
     (from_advertisement example_device advertisement_with_mfr SOURCE_LOCAL)
   \<and> snd (async_register_callback example_world example_history_manager 1
             (Some (address_matcher ''AA:BB:CC:DD:EE:FF'')))
      = [Callback_invoked 1 (from_advertisement example_device advertisement_with_mfr SOURCE_LOCAL)
           ADVERTISEMENT,
         Exception_logged ''Error in bluetooth callback'']
   \<and> callback_calls (snd (async_register_callback example_world example_history_manager 1
             (Some (address_matcher ''AA:BB:CC:DD:EE:FF''))))
      = [(1, from_advertisement example_device advertisement_with_mfr SOURCE_LOCAL)]
   \<and> snd (async_register_callback example_world example_history_manager 1 None) = []
   \<and> snd (async_register_callback example_world example_history_manager 1
             (Some (address_matcher ''11:22:33:44:55:66''))) = []
   \<and> snd (async_register_callback example_world example_history_manager 1
             (Some (address_matcher ''''))) = []"
proof -
  let ?sc = "\<lparr> history = [(''AA:BB:CC:DD:EE:FF'', (example_device, advertisement_with_mfr))],
                            discovered_devices = [], scanner_callbacks = [],
                            scanning_mode = None, detection_callback_registered = False,
                            started = False \<rparr>"
  have sc: "scanner example_history_manager = Some ?sc"
    by (simp add: example_history_manager_def)
  have wf: "[] \<notin> fst ` set (history ?sc)"
    by simp
  have hit: "map_of (history ?sc) ''AA:BB:CC:DD:EE:FF'' = Some (example_device, advertisement_with_mfr)"
    by simp
  have miss: "map_of (history ?sc) ''11:22:33:44:55:66'' = None"
    by simp
  have 0: "callback_raises example_world 1
     (from_advertisement example_device advertisement_with_mfr SOURCE_LOCAL)"
    by (simp add: example_world_def)
  from register_replay [of "Some (address_matcher ''AA:BB:CC:DD:EE:FF'')"
      "address_matcher ''AA:BB:CC:DD:EE:FF''" "''AA:BB:CC:DD:EE:FF''" example_history_manager ?sc
      example_device advertisement_with_mfr example_world 1] sc wf hit
  have r: "snd (async_register_callback example_world example_history_manager 1
             (Some (address_matcher ''AA:BB:CC:DD:EE:FF'')))
           = callback_events example_world 1
               (from_advertisement example_device advertisement_with_mfr SOURCE_LOCAL)
         \<and> callback_calls (snd (async_register_callback example_world example_history_manager 1
             (Some (address_matcher ''AA:BB:CC:DD:EE:FF''))))
           = [(1, from_advertisement example_device advertisement_with_mfr SOURCE_LOCAL)]"
    by (simp add: address_matcher_def)
  with 0 have ev: "snd (async_register_callback example_world example_history_manager 1
             (Some (address_matcher ''AA:BB:CC:DD:EE:FF'')))
      = [Callback_invoked 1 (from_advertisement example_device advertisement_with_mfr SOURCE_LOCAL)
           ADVERTISEMENT,
         Exception_logged ''Error in bluetooth callback'']"
    by (simp add: callback_events_def)
  from register_replay [of None undefined undefined example_history_manager undefined
      undefined undefined example_world 1]
  have 2: "snd (async_register_callback example_world example_history_manager 1 None) = []"
    by simp
  from register_replay [of "Some (address_matcher ''11:22:33:44:55:66'')"
      "address_matcher ''11:22:33:44:55:66''" "''11:22:33:44:55:66''" example_history_manager ?sc
      example_device advertisement_with_mfr example_world 1] sc miss
  have 3: "snd (async_register_callback example_world example_history_manager 1
             (Some (address_matcher ''11:22:33:44:55:66''))) = []"
    by (simp add: address_matcher_def)
  from register_replay [of "Some (address_matcher '''')"
      "address_matcher ''''" undefined example_history_manager undefined
      undefined undefined example_world 1]
  have 4: "snd (async_register_callback example_world example_history_manager 1
             (Some (address_matcher ''''))) = []"
    by (simp add: address_matcher_def)
  from 0 ev r 2 3 4 show ?thesis by blast
qed

text \<open>
  Claim C6, as the code has it. The handle removes the first entry equal to the
  registered pair. Registering and then calling the handle, when the registration
  replays nothing or the replayed callback calls no handle itself, always succeeds and
  leaves the same subscriptions (as a multiset), so every later advertisement invokes
  the same callbacks with the same arguments, possibly in another order (given that no
  subscriber unregisters during that dispatch). When no equal pair was registered
  before, the manager is exactly the original one and every later advertisement is
  handled identically, whatever the subscribers do.
\<close>

theorem register_unregister_roundtrip:
  "(quiet w \<or> snd (async_register_callback w mgr cb mt) = [] \<longrightarrow>
      async_remove_callback (cb, mt) (fst (async_register_callback w mgr cb mt))
        = Inr (mgr\<lparr> callbacks := remove1 (cb, mt) (callbacks mgr @ [(cb, mt)]) \<rparr>))
   \<and> mset (remove1 (cb, mt) (callbacks mgr @ [(cb, mt)])) = mset (callbacks mgr)
   \<and> (\<forall>w' device advertisement_data. registry_kept w' \<longrightarrow>
         mset (callback_calls (snd (device_detected w'
                 (mgr\<lparr> callbacks := remove1 (cb, mt) (callbacks mgr @ [(cb, mt)]) \<rparr>)
                 device advertisement_data)))
           = mset (callback_calls (snd (device_detected w' mgr device advertisement_data))))
   \<and> ((quiet w \<or> snd (async_register_callback w mgr cb mt) = [])
        \<and> (cb, mt) \<notin> set (callbacks mgr)
        \<longrightarrow> async_remove_callback (cb, mt) (fst (async_register_callback w mgr cb mt)) = Inr mgr
          \<and> (\<forall>mgr'. async_remove_callback (cb, mt) (fst (async_register_callback w mgr cb mt)) = Inr mgr'
                \<longrightarrow> (\<forall>w' device advertisement_data.
                       device_detected w' mgr' device advertisement_data
                         = device_detected w' mgr device advertisement_data)))"
proof -
  have 1: "quiet w \<or> snd (async_register_callback w mgr cb mt) = [] \<longrightarrow>
      async_remove_callback (cb, mt) (fst (async_register_callback w mgr cb mt))
        = Inr (mgr\<lparr> callbacks := remove1 (cb, mt) (callbacks mgr @ [(cb, mt)]) \<rparr>)"
    using register_appended [of w mgr cb mt] by (auto simp: async_remove_callback_def)
  have 2: "mset (remove1 (cb, mt) (callbacks mgr @ [(cb, mt)])) = mset (callbacks mgr)"
    by simp
  have 3: "(quiet w \<or> snd (async_register_callback w mgr cb mt) = [])
        \<and> (cb, mt) \<notin> set (callbacks mgr)
        \<longrightarrow> async_remove_callback (cb, mt) (fst (async_register_callback w mgr cb mt)) = Inr mgr"
    using 1 by (auto simp: remove1_append_new)
  have 4: "\<forall>w' device advertisement_data. registry_kept w' \<longrightarrow>
         mset (callback_calls (snd (device_detected w'
                 (mgr\<lparr> callbacks := remove1 (cb, mt) (callbacks mgr @ [(cb, mt)]) \<rparr>)
                 device advertisement_data)))
           = mset (callback_calls (snd (device_detected w' mgr device advertisement_data)))"
    by (simp add: device_detected_calls)
  from 1 2 3 4 show ?thesis by auto
qed

theorem register_unregister_roundtrip_witness:
  "quiet example_world
   \<and> (3, None) \<notin> set (callbacks example_manager)
   \<and> async_remove_callback (3, None) (fst (async_register_callback example_world example_manager 3 None))
       = Inr example_manager"
proof -
  have 1: "(3, None) \<notin> set (callbacks example_manager)"
    by (simp add: example_manager_def)
  from register_unregister_roundtrip [of example_world example_manager 3 None] 1
    example_world_quiet
  show ?thesis by blast
qed

text \<open>
  Claim C6 as the specification words it fails when an equal pair is already
  registered: the handle removes the earlier occurrence, so the registry is reordered.
  Here the registry holds the callbacks 1 and 2 without matchers; registering callback 1
  again and calling the handle leaves 2 before 1, and an advertisement invokes them in
  that order.
\<close>

theorem duplicate_registration_counterexample:
  "async_remove_callback (1, None)
       (fst (async_register_callback example_world two_callbacks_manager 1 None))
     = Inr (two_callbacks_manager\<lparr> callbacks := [(2, None), (1, None)] \<rparr>)
   \<and> callback_calls (snd (device_detected example_world
          (two_callbacks_manager\<lparr> callbacks := [(2, None), (1, None)] \<rparr>)
          example_device advertisement_with_mfr))
     = [(2, from_advertisement example_device advertisement_with_mfr SOURCE_LOCAL),
        (1, from_advertisement example_device advertisement_with_mfr SOURCE_LOCAL)]
   \<and> callback_calls (snd (device_detected example_world two_callbacks_manager
          example_device advertisement_with_mfr))
     = [(1, from_advertisement example_device advertisement_with_mfr SOURCE_LOCAL),
        (2, from_advertisement example_device advertisement_with_mfr SOURCE_LOCAL)]
   \<and> device_detected example_world
          (two_callbacks_manager\<lparr> callbacks := [(2, None), (1, None)] \<rparr>)
          example_device advertisement_with_mfr
       \<noteq> device_detected example_world two_callbacks_manager
            example_device advertisement_with_mfr"
proof -
  have k: "registry_kept example_world"
    by (rule quiet_registry_kept) (rule example_world_quiet)
  have 1: "async_remove_callback (1, None)
       (fst (async_register_callback example_world two_callbacks_manager 1 None))
     = Inr (two_callbacks_manager\<lparr> callbacks := [(2, None), (1, None)] \<rparr>)"
    by (simp add: register_quiet example_world_quiet async_remove_callback_def
          two_callbacks_manager_def)
  have 2: "callback_calls (snd (device_detected example_world
          (two_callbacks_manager\<lparr> callbacks := [(2, None), (1, None)] \<rparr>)
          example_device advertisement_with_mfr))
     = [(2, from_advertisement example_device advertisement_with_mfr SOURCE_LOCAL),
        (1, from_advertisement example_device advertisement_with_mfr SOURCE_LOCAL)]"
    by (simp add: device_detected_calls k subscription_matches_def)
  have 3: "callback_calls (snd (device_detected example_world two_callbacks_manager
          example_device advertisement_with_mfr))
     = [(1, from_advertisement example_device advertisement_with_mfr SOURCE_LOCAL),
        (2, from_advertisement example_device advertisement_with_mfr SOURCE_LOCAL)]"
    by (simp add: device_detected_calls k subscription_matches_def two_callbacks_manager_def)
  have 4: "device_detected example_world
          (two_callbacks_manager\<lparr> callbacks := [(2, None), (1, None)] \<rparr>)
          example_device advertisement_with_mfr
       \<noteq> device_detected example_world two_callbacks_manager
            example_device advertisement_with_mfr"
  proof
    assume "device_detected example_world
          (two_callbacks_manager\<lparr> callbacks := [(2, None), (1, None)] \<rparr>)
          example_device advertisement_with_mfr
       = device_detected example_world two_callbacks_manager
            example_device advertisement_with_mfr"
    with 2 3 show False by simp
  qed
  from 1 2 3 4 show ?thesis by blast
qed

section \<open>Properties of the scanner start\<close>

text \<open>
  Claim C9. With a scanner set up, a driver failure (\<^verbatim>\<open>FileNotFoundError\<close> or
  \<^verbatim>\<open>BleakError\<close>) in the scanner's setup leaves \<^verbatim>\<open>async_start\<close> as a
  \<^verbatim>\<open>RuntimeError\<close> with the manager untouched; the same failure in the scanner's
  start leaves it as \<^verbatim>\<open>ConfigEntryNotReady\<close>, and the sink registered earlier in
  the call has been removed again: the scanner holds the registrations it held before
  the call. A start without failure returns normally and keeps the registration.
\<close>

theorem start_failures:
  assumes "scanner mgr = Some sc"
    and "ex = FileNotFoundError \<or> ex = BleakError"
  shows "fst (async_start (Some ex) start_raises mode mgr) = Some (RuntimeError ex)
   \<and> snd (async_start (Some ex) start_raises mode mgr) = mgr
   \<and> fst (async_start None (Some ex) mode mgr) = Some (ConfigEntryNotReady ex)
   \<and> (\<exists>sc'. scanner (snd (async_start None (Some ex) mode mgr)) = Some sc'
         \<and> scanner_callbacks sc'
             = remove1 Device_detected_sink (scanner_callbacks sc @ [Device_detected_sink])
         \<and> mset (scanner_callbacks sc') = mset (scanner_callbacks sc)
         \<and> (Device_detected_sink \<notin> set (scanner_callbacks sc)
              \<longrightarrow> scanner_callbacks sc' = scanner_callbacks sc))
   \<and> fst (async_start None None mode mgr) = None
   \<and> (\<exists>sc'. scanner (snd (async_start None None mode mgr)) = Some sc'
         \<and> scanner_callbacks sc' = scanner_callbacks sc @ [Device_detected_sink])"
  using assms
  by (auto simp: async_start_def Let_def scanner_register_callback_def
        scanner_remove_callback_def remove1_append_new)

theorem start_failures_witness:
  "fst (async_start (Some BleakError) None ACTIVE example_manager) = Some (RuntimeError BleakError)
   \<and> fst (async_start None (Some FileNotFoundError) ACTIVE example_manager)
       = Some (ConfigEntryNotReady FileNotFoundError)
   \<and> map_option scanner_callbacks
        (scanner (snd (async_start None (Some FileNotFoundError) ACTIVE example_manager))) = Some []
   \<and> map_option scanner_callbacks
        (scanner (snd (async_start None None ACTIVE example_manager))) = Some [Device_detected_sink]"
proof -
  let ?sc = "\<lparr> history = [], discovered_devices = [], scanner_callbacks = [],
               scanning_mode = None, detection_callback_registered = False, started = False \<rparr>"
  have sc: "scanner example_manager = Some ?sc"
    by (simp add: example_manager_def async_setup_def)
  from start_failures [OF sc, of BleakError None ACTIVE]
       start_failures [OF sc, of FileNotFoundError None ACTIVE]
  show ?thesis by auto
qed

section \<open>Properties of the availability tracker\<close>

lemma unavailable_calls_append [simp]:
  "unavailable_calls addr (xs @ ys) = unavailable_calls addr xs @ unavailable_calls addr ys"
  by (simp add: unavailable_calls_def)

lemma unavailable_calls_Nil [simp]: "unavailable_calls addr [] = []"
  by (simp add: unavailable_calls_def)

lemma unavailable_calls_events [simp]:
  "unavailable_calls addr (unavailable_events w a cb) = (if a = addr then [cb] else [])"
  by (simp add: unavailable_events_def unavailable_calls_def)

lemma filter_unavailable_events [simp]:
  "filter (\<lambda>e. \<not> is_exception_log e) (unavailable_events w a cb)
     = unavailable_events (never_raises_unavailable w) a cb"
  by (simp add: unavailable_events_def never_raises_unavailable_def)

lemma never_raises_unavailable_fields [simp]:
  "set_order (never_raises_unavailable w) = set_order w"
  "unavailable_callback_unregisters (never_raises_unavailable w) = unavailable_callback_unregisters w"
  by (simp_all add: never_raises_unavailable_def)







lemma delete_history_fields [simp]:
  "unavailable_callbacks (delete_history addr mgr) = unavailable_callbacks mgr"
  "callbacks_of (delete_history addr mgr) a = callbacks_of mgr a"
  by (simp_all add: delete_history_def callbacks_of_def)










lemma set_update_subset: "set (AList.update k v al) \<subseteq> insert (k, v) (set al)"
  by (induction al) auto

lemma set_delete_subset: "set (AList.delete k al) \<subseteq> set al"
  by (induction al) auto

lemma delete_updated: "(k, v) \<notin> set (AList.delete k al)"
  by (induction al) auto

lemma track_nonempty:
  assumes "[] \<notin> snd ` set (unavailable_callbacks mgr)"
  shows "[] \<notin> snd ` set (unavailable_callbacks (async_track_unavailable mgr cb addr))"
proof -
  let ?cbs = "(case map_of (unavailable_callbacks mgr) addr of None \<Rightarrow> [] | Some l \<Rightarrow> l) @ [cb]"
  have "set (AList.update addr ?cbs (unavailable_callbacks mgr))
          \<subseteq> insert (addr, ?cbs) (set (unavailable_callbacks mgr))"
    by (rule set_update_subset)
  moreover have "?cbs \<noteq> []" by simp
  ultimately show ?thesis
    using assms by (fastforce simp: async_track_unavailable_def Let_def)
qed

lemma remove_nonempty:
  assumes "[] \<notin> snd ` set (unavailable_callbacks mgr)"
    and "async_remove_unavailable_callback cb addr mgr = Inr mgr'"
  shows "[] \<notin> snd ` set (unavailable_callbacks mgr')"
proof -
  from assms(2) obtain cbs where
    cbs: "map_of (unavailable_callbacks mgr) addr = Some cbs" and mem: "cb \<in> set cbs"
    by (auto simp: async_remove_unavailable_callback_def split: option.splits if_splits)
  let ?cbs' = "remove1 cb cbs"
  let ?ucs = "AList.update addr ?cbs' (unavailable_callbacks mgr)"
  have sub: "set ?ucs \<subseteq> insert (addr, ?cbs') (set (unavailable_callbacks mgr))"
    by (rule set_update_subset)
  show ?thesis
  proof (cases "?cbs' = []")
    case True
    then have m: "unavailable_callbacks mgr' = AList.delete addr ?ucs"
      using assms(2) cbs mem by (auto simp: async_remove_unavailable_callback_def Let_def)
    have "set (AList.delete addr ?ucs) \<subseteq> set ?ucs" by (rule set_delete_subset)
    moreover have "(addr, ?cbs') \<notin> set (AList.delete addr ?ucs)" by (rule delete_updated)
    ultimately have "set (AList.delete addr ?ucs) \<subseteq> set (unavailable_callbacks mgr)"
      using sub by blast
    with assms(1) show ?thesis unfolding m by blast
  next
    case False
    then have m: "unavailable_callbacks mgr' = ?ucs"
      using assms(2) cbs mem by (auto simp: async_remove_unavailable_callback_def Let_def)
    from sub assms(1) False show ?thesis unfolding m by fastforce
  qed
qed

lemma step_nonempty:
  "[] \<notin> snd ` set (unavailable_callbacks mgr)
   \<Longrightarrow> [] \<notin> snd ` set (unavailable_callbacks (unavailable_step mgr op))"
  by (cases op) (auto simp: track_nonempty dest: remove_nonempty split: sum.splits)

lemma run_nonempty:
  "[] \<notin> snd ` set (unavailable_callbacks mgr)
   \<Longrightarrow> [] \<notin> snd ` set (unavailable_callbacks (foldl unavailable_step mgr ops))"
  by (induction ops arbitrary: mgr) (simp_all add: step_nonempty)




text \<open>
  Claim C10. After any sequence of registrations and of calls of their handles, starting
  from a new manager, no address is mapped to an empty callback list. A registration
  appends the callback to the list of its address; a handle that finds its callback
  removes one occurrence of it and deletes the address when the list becomes empty.
\<close>

theorem unavailable_lists_nonempty:
  "[] \<notin> snd ` set (unavailable_callbacks (foldl unavailable_step (init_manager ims) ops))
   \<and> map_of (unavailable_callbacks (async_track_unavailable mgr cb addr)) addr
       = Some ((case map_of (unavailable_callbacks mgr) addr of None \<Rightarrow> [] | Some l \<Rightarrow> l) @ [cb])
   \<and> (map_of (unavailable_callbacks mgr) addr = Some cbs \<and> cb \<in> set cbs
       \<longrightarrow> (\<exists>mgr'. async_remove_unavailable_callback cb addr mgr = Inr mgr'
              \<and> map_of (unavailable_callbacks mgr') addr
                  = (if remove1 cb cbs = [] then None else Some (remove1 cb cbs))))"
proof -
  have 1: "[] \<notin> snd ` set (unavailable_callbacks (foldl unavailable_step (init_manager ims) ops))"
    by (rule run_nonempty) (simp add: init_manager_def)
  have 2: "map_of (unavailable_callbacks (async_track_unavailable mgr cb addr)) addr
       = Some ((case map_of (unavailable_callbacks mgr) addr of None \<Rightarrow> [] | Some l \<Rightarrow> l) @ [cb])"
    by (simp add: async_track_unavailable_def Let_def update_conv')
  have 3: "map_of (unavailable_callbacks mgr) addr = Some cbs \<and> cb \<in> set cbs
       \<longrightarrow> (\<exists>mgr'. async_remove_unavailable_callback cb addr mgr = Inr mgr'
              \<and> map_of (unavailable_callbacks mgr') addr
                  = (if remove1 cb cbs = [] then None else Some (remove1 cb cbs)))"
    by (auto simp: async_remove_unavailable_callback_def Let_def update_conv' delete_conv')
  from 1 2 3 show ?thesis by blast
qed

theorem unavailable_lists_nonempty_witness:
  "unavailable_callbacks
     (foldl unavailable_step (init_manager [])
        [Track 1 ''AA:BB:CC:DD:EE:FF'', Track 2 ''AA:BB:CC:DD:EE:FF'', Track 3 ''11:22:33:44:55:66'',
         Remove 3 ''11:22:33:44:55:66'', Remove 1 ''AA:BB:CC:DD:EE:FF''])
     = [(''AA:BB:CC:DD:EE:FF'', [2])]
   \<and> [] \<notin> snd ` set (unavailable_callbacks
     (foldl unavailable_step (init_manager [])
        [Track 1 ''AA:BB:CC:DD:EE:FF'', Track 2 ''AA:BB:CC:DD:EE:FF'', Track 3 ''11:22:33:44:55:66'',
         Remove 3 ''11:22:33:44:55:66'', Remove 1 ''AA:BB:CC:DD:EE:FF'']))
   \<and> (\<exists>mgr'. async_remove_unavailable_callback 3 ''11:22:33:44:55:66'' tracked_manager = Inr mgr'
         \<and> map_of (unavailable_callbacks mgr') ''11:22:33:44:55:66'' = None)"
proof -
  have 1: "unavailable_callbacks
     (foldl unavailable_step (init_manager [])
        [Track 1 ''AA:BB:CC:DD:EE:FF'', Track 2 ''AA:BB:CC:DD:EE:FF'', Track 3 ''11:22:33:44:55:66'',
         Remove 3 ''11:22:33:44:55:66'', Remove 1 ''AA:BB:CC:DD:EE:FF''])
     = [(''AA:BB:CC:DD:EE:FF'', [2])]"
    by (simp add: init_manager_def async_track_unavailable_def
          async_remove_unavailable_callback_def Let_def)
  have 2: "map_of (unavailable_callbacks tracked_manager) ''11:22:33:44:55:66'' = Some [3] \<and> 3 \<in> set [3::nat]"
    by (simp add: tracked_manager_def)
  from unavailable_lists_nonempty [of "[]"
      "[Track 1 ''AA:BB:CC:DD:EE:FF'', Track 2 ''AA:BB:CC:DD:EE:FF'', Track 3 ''11:22:33:44:55:66'',
         Remove 3 ''11:22:33:44:55:66'', Remove 1 ''AA:BB:CC:DD:EE:FF'']"
      tracked_manager 3 "''11:22:33:44:55:66''" "[3]"] 1 2
  show ?thesis by simp
qed

end
